theory Spec2Isabelle
  imports Complex_Main
begin

section \<open>The remote exchange and its exceptions\<close>

text \<open>
  The exceptions that can leave the \<^verbatim>\<open>try\<close> block of \<^verbatim>\<open>fetch_data\<close>:
  the three transport failures of the \<^verbatim>\<open>except\<close> clause, and those raised by
  \<^verbatim>\<open>json.loads(response.text)\<close> and \<^verbatim>\<open>data['data']\<close>. The others are
  raised by pandas: by \<^verbatim>\<open>pd.json_normalize\<close> on a value that is neither a list
  nor an object, by \<^verbatim>\<open>pd.read_csv\<close> on a file without a line or with a line of
  too many fields, and by \<^verbatim>\<open>DataFrame.query\<close> on an expression that does not
  parse.
\<close>

datatype exn =
    ConnectionError | Timeout | TooManyRedirects
  | JSONDecodeError | TypeError | KeyError
  | NotImplementedError
  | EmptyDataError | ParserError
  | SyntaxError

text \<open>
  A snapshot is one entity object of the payload, seen as \<^verbatim>\<open>pd.json_normalize\<close>
  flattens it: dotted-path column names with their values. A batch is the
  \<^verbatim>\<open>data\<close> collection of one response.
\<close>

type_synonym snapshot = "(string \<times> string) list"
type_synonym batch = "snapshot list"

text \<open>
  The \<^verbatim>\<open>data\<close> entry of a response need not be a list. It can be
  \<^verbatim>\<open>null\<close>, a truth value, a number, a string, the empty object, or an object
  with entries (held here as one snapshot).
\<close>

datatype other =
    Null | Boolean bool | Number rat | String string | EmptyObject | Object snapshot

text \<open>
  What \<^verbatim>\<open>self.session.get\<close> and the two lines after it meet: the call raises, or
  a response arrives whose text is not JSON, is a JSON value other than an object (a
  list, a string, a number, \<^verbatim>\<open>null\<close>), is an object without a \<^verbatim>\<open>data\<close>
  entry, or is an object with a \<^verbatim>\<open>data\<close> entry: a list of snapshots, or a value
  of another shape.
\<close>

datatype body = NotJson | NotAnObject | NoDataKey | Data batch | DataOther other

text \<open>What \<^verbatim>\<open>fetch_data\<close> returns when it returns a value other than
  \<^verbatim>\<open>None\<close>: the \<^verbatim>\<open>data\<close> entry as it is.\<close>

datatype fetched = Records batch | Value other

datatype exchange = Raises exn | Responds body

type_synonym timestamp = nat

text \<open>The world of a run: for each iteration, the exchange it meets and the clock
  that \<^verbatim>\<open>pd.to_datetime('now')\<close> reads.\<close>

type_synonym world = "nat \<Rightarrow> exchange \<times> timestamp"

section \<open>Tables and the output file\<close>

text \<open>A frame has its column names, in order, and its rows; a row gives the cell of
  each column. The file is a list of lines: the header with the column names, and the
  rows with their cells in the order of the columns of the frame that wrote them.\<close>

datatype cell = NaN | Val string | Time timestamp

record dataframe =
  columns :: "string list"
  rows :: "(string \<Rightarrow> cell) list"

datatype line = Header "string list" | Row "cell list"

datatype message =
    Pulling nat nat
  | ErrorFetching exn
  | RunCompleted nat nat
  | NoDataFile

text \<open>What a run does that can be seen from outside: a call of
  \<^verbatim>\<open>self.session.get\<close>, a call of \<^verbatim>\<open>save_data\<close>, a call of \<^verbatim>\<open>sleep\<close>
  with its number of seconds, and a \<^verbatim>\<open>print\<close>.\<close>

datatype event = Fetch | Store | Sleep nat | Print message

text \<open>The handler's state: the file at \<^verbatim>\<open>self.output_file\<close> (\<open>None\<close> when
  \<^verbatim>\<open>os.path.isfile\<close> is false), the attribute \<^verbatim>\<open>self.dataframe\<close>, and the
  events so far, oldest first.\<close>

record state =
  output_file :: "line list option"
  frame :: dataframe
  trace :: "event list"

definition emit :: "event \<Rightarrow> state \<Rightarrow> state" where
  "emit e s = s\<lparr>trace := trace s @ [e]\<rparr>"

section \<open>CryptoAPIHandler\<close>

subsection \<open>fetch_data\<close>

text \<open>The \<^verbatim>\<open>try\<close> block returns the \<^verbatim>\<open>data\<close> entry whatever its shape;
  \<^verbatim>\<open>json.loads\<close> reads \<^verbatim>\<open>null\<close> as \<^verbatim>\<open>None\<close>.\<close>

definition try_block :: "exchange \<Rightarrow> exn + fetched option" where
  "try_block x =
     (case x of
        Raises e \<Rightarrow> Inl e
      | Responds NotJson \<Rightarrow> Inl JSONDecodeError
      | Responds NotAnObject \<Rightarrow> Inl TypeError
      | Responds NoDataKey \<Rightarrow> Inl KeyError
      | Responds (Data d) \<Rightarrow> Inr (Some (Records d))
      | Responds (DataOther Null) \<Rightarrow> Inr None
      | Responds (DataOther v) \<Rightarrow> Inr (Some (Value v)))"

definition excepted :: "exn \<Rightarrow> bool" where
  "excepted e = (e = ConnectionError \<or> e = Timeout \<or> e = TooManyRedirects)"

definition fetch_data :: "exchange \<Rightarrow> state \<Rightarrow> (exn + fetched option) \<times> state" where
  "fetch_data x s =
     (let s1 = emit Fetch s in
      case try_block x of
        Inr d \<Rightarrow> (Inr d, s1)
      | Inl e \<Rightarrow>
          if excepted e then (Inr None, emit (Print (ErrorFetching e)) s1)
          else (Inl e, s1))"

subsection \<open>save_data\<close>

text \<open>\<^verbatim>\<open>pd.json_normalize\<close> makes one row per snapshot; its columns are the names
  that occur in the snapshots, in the order of their first occurrence, and a snapshot
  without a name has no value there. Assigning a scalar to a column sets it in every
  row and adds the column when it is new. The clock read by
  \<^verbatim>\<open>pd.to_datetime('now')\<close> is the parameter \<open>now\<close>.\<close>

definition add_column :: "string list \<Rightarrow> string \<Rightarrow> string list" where
  "add_column cs c = (if c \<in> set cs then cs else cs @ [c])"

definition json_normalize :: "batch \<Rightarrow> dataframe" where
  "json_normalize d =
     \<lparr>columns = foldl add_column [] (concat (map (map fst) d)),
      rows = map (\<lambda>r c. case map_of r c of None \<Rightarrow> NaN | Some v \<Rightarrow> Val v) d\<rparr>"

definition assign :: "string \<Rightarrow> cell \<Rightarrow> dataframe \<Rightarrow> dataframe" where
  "assign c v df =
     \<lparr>columns = add_column (columns df) c, rows = map (\<lambda>r. r(c := v)) (rows df)\<rparr>"

definition to_csv :: "bool \<Rightarrow> dataframe \<Rightarrow> line list" where
  "to_csv header df =
     (if header then [Header (columns df)] else []) @
     map (\<lambda>r. Row (map r (columns df))) (rows df)"

definition save_data :: "timestamp \<Rightarrow> batch \<Rightarrow> bool \<Rightarrow> state \<Rightarrow> state" where
  "save_data now d save_csv s =
     (let df = assign ''timestamp'' (Time now) (json_normalize d);
          s1 = (emit Store s)\<lparr>frame := df\<rparr>
      in if save_csv then
           (case output_file s1 of
              None \<Rightarrow> s1\<lparr>output_file := Some (to_csv True df)\<rparr>
            | Some ls \<Rightarrow> s1\<lparr>output_file := Some (ls @ to_csv False df)\<rparr>)
         else s1)"

subsection \<open>load_data\<close>

text \<open>
  \<^verbatim>\<open>pd.read_csv\<close> on the lines of the file, and the table it returns, by its
  shape. Lines without a field are skipped. The first line left is the heading. The
  first row after it may have more fields than the heading: the surplus at its front
  is the index. A later row with more fields than the wider of these two makes the
  parser raise; a row with fewer is filled up with cells without a value. A file
  without a line that has a field has nothing to parse.
\<close>

record table =
  heading :: "cell list"
  data_rows :: "cell list list"

fun cells :: "line \<Rightarrow> cell list" where
  "cells (Header cs) = map Val cs"
| "cells (Row xs) = xs"

definition read_csv :: "line list \<Rightarrow> exn + table" where
  "read_csv ls =
     (case filter (\<lambda>l. cells l \<noteq> []) ls of
        [] \<Rightarrow> Inl EmptyDataError
      | h # ds \<Rightarrow>
          (let width = (case ds of
                          [] \<Rightarrow> length (cells h)
                        | d # ds' \<Rightarrow> max (length (cells h)) (length (cells d)))
           in if list_ex (\<lambda>d. width < length (cells d)) ds then Inl ParserError
              else Inr \<lparr>heading = cells h,
                        data_rows =
                          map (\<lambda>d. cells d @ replicate (width - length (cells d)) NaN) ds\<rparr>))"

definition load_data :: "state \<Rightarrow> (exn + table option) \<times> state" where
  "load_data s =
     (case output_file s of
        Some ls \<Rightarrow> (map_sum id Some (read_csv ls), s)
      | None \<Rightarrow> (Inr None, emit (Print NoDataFile) s))"

subsection \<open>automate_data_pull\<close>

text \<open>The interval and the number of runs are natural numbers. \<open>cycle\<close> is the body
  of the loop, \<open>iterate\<close> runs it over the values of \<^verbatim>\<open>range(runs)\<close>; an
  exception that leaves \<^verbatim>\<open>fetch_data\<close> or \<^verbatim>\<open>save_data\<close> leaves the loop.\<close>

datatype outcome = Completed state | Aborted exn state

text \<open>The truth value that \<^verbatim>\<open>if data:\<close> gives the fetched value.\<close>

fun truthy :: "fetched option \<Rightarrow> bool" where
  "truthy None = False"
| "truthy (Some (Records [])) = False"
| "truthy (Some (Records (x # xs))) = True"
| "truthy (Some (Value Null)) = False"
| "truthy (Some (Value (Boolean b))) = b"
| "truthy (Some (Value (Number n))) = (n \<noteq> 0)"
| "truthy (Some (Value (String t))) = (t \<noteq> [])"
| "truthy (Some (Value EmptyObject)) = False"
| "truthy (Some (Value (Object r))) = True"

text \<open>
  The call \<^verbatim>\<open>self.save_data(data)\<close> on a fetched value. \<^verbatim>\<open>pd.json_normalize\<close>
  takes a list as the records, takes an object as one record, and raises on any other
  value; \<open>save_data\<close> above is the method on the records.
\<close>

fun records_of :: "fetched \<Rightarrow> exn + batch" where
  "records_of (Records d) = Inr d"
| "records_of (Value (Object r)) = Inr [r]"
| "records_of (Value EmptyObject) = Inr [[]]"
| "records_of (Value v) = Inl NotImplementedError"

definition call_save_data :: "timestamp \<Rightarrow> fetched \<Rightarrow> state \<Rightarrow> exn \<times> state + state" where
  "call_save_data now v s =
     (case records_of v of
        Inl e \<Rightarrow> Inl (e, emit Store s)
      | Inr d \<Rightarrow> Inr (save_data now d True s))"

definition cycle :: "world \<Rightarrow> nat \<Rightarrow> nat \<Rightarrow> nat \<Rightarrow> state \<Rightarrow> outcome" where
  "cycle w interval runs i s =
     (let s1 = emit (Print (Pulling (i + 1) runs)) s in
      case fetch_data (fst (w i)) s1 of
        (Inl e, s2) \<Rightarrow> Aborted e s2
      | (Inr d, s2) \<Rightarrow>
          (case (if truthy d then call_save_data (snd (w i)) (the d) s2 else Inr s2) of
             Inl (e, s3) \<Rightarrow> Aborted e s3
           | Inr s3 \<Rightarrow>
               (let s4 = emit (Print (RunCompleted (i + 1) interval)) s3
                in Completed (emit (Sleep interval) s4))))"

fun iterate :: "world \<Rightarrow> nat \<Rightarrow> nat \<Rightarrow> nat list \<Rightarrow> state \<Rightarrow> outcome" where
  "iterate w interval runs [] s = Completed s"
| "iterate w interval runs (i # is) s =
     (case cycle w interval runs i s of
        Aborted e s' \<Rightarrow> Aborted e s'
      | Completed s' \<Rightarrow> iterate w interval runs is s')"

definition automate_data_pull :: "world \<Rightarrow> nat \<Rightarrow> nat \<Rightarrow> state \<Rightarrow> outcome" where
  "automate_data_pull w interval runs s = iterate w interval runs [0..<runs] s"

section \<open>DataTransformer\<close>

text \<open>
  A row of the loaded table: the entity name and the six percent-change columns that
  \<^verbatim>\<open>transform_data\<close> selects. Every other column of the file lives in the
  extension of the record. A percent-change cell holds a floating-point number, of
  the type \<open>'n\<close>, or no value (pandas' NaN), which is \<open>None\<close>.
\<close>

record 'n row =
  name :: string
  percent_change_1h :: "'n option"
  percent_change_24h :: "'n option"
  percent_change_7d :: "'n option"
  percent_change_30d :: "'n option"
  percent_change_60d :: "'n option"
  percent_change_90d :: "'n option"

subsection \<open>transform_data\<close>

text \<open>\<^verbatim>\<open>groupby('name', sort=False)\<close>: one group per name, in the order in which
  the names first occur; a row joins the group of its name, or opens a new last group.\<close>

fun add_to_group ::
  "('n, 'a) row_scheme \<Rightarrow> (string \<times> ('n, 'a) row_scheme list) list \<Rightarrow>
   (string \<times> ('n, 'a) row_scheme list) list" where
  "add_to_group r [] = [(name r, [r])]"
| "add_to_group r ((k, rs) # gs) =
     (if k = name r then (k, rs @ [r]) # gs else (k, rs) # add_to_group r gs)"

definition groupby_name ::
  "('n, 'a) row_scheme list \<Rightarrow> (string \<times> ('n, 'a) row_scheme list) list" where
  "groupby_name t = foldl (\<lambda>gs r. add_to_group r gs) [] t"

definition selected_columns :: "(string \<times> (('n, 'a) row_scheme \<Rightarrow> 'n option)) list" where
  "selected_columns =
     [(''quote.USD.percent_change_1h'', percent_change_1h),
      (''quote.USD.percent_change_24h'', percent_change_24h),
      (''quote.USD.percent_change_7d'', percent_change_7d),
      (''quote.USD.percent_change_30d'', percent_change_30d),
      (''quote.USD.percent_change_60d'', percent_change_60d),
      (''quote.USD.percent_change_90d'', percent_change_90d)]"

text \<open>
  \<^verbatim>\<open>.mean()\<close> on the groups. pandas leaves the cells without a value out of a
  group's column, and gives no value when none is left. On the numbers that are left
  it computes their mean in floating point: that computation, with its rounding and
  its overflow, is the parameter \<open>mean\<close>, which gets the numbers in the order of the
  rows (its result can itself be no value).
\<close>

fun present :: "'n option list \<Rightarrow> 'n list" where
  "present [] = []"
| "present (None # cs) = present cs"
| "present (Some x # cs) = x # present cs"

definition column_mean :: "('n list \<Rightarrow> 'n option) \<Rightarrow> 'n option list \<Rightarrow> 'n option" where
  "column_mean mean cs = (case present cs of [] \<Rightarrow> None | x # xs \<Rightarrow> mean (x # xs))"

definition grouped_mean ::
  "('n list \<Rightarrow> 'n option) \<Rightarrow> ('n, 'a) row_scheme list \<Rightarrow>
   (string \<times> (string \<times> 'n option) list) list" where
  "grouped_mean mean t =
     map (\<lambda>(k, rs).
            (k, map (\<lambda>(label, col). (label, column_mean mean (map col rs))) selected_columns))
       (groupby_name t)"

text \<open>\<^verbatim>\<open>stack().to_frame(name='values').reset_index()\<close>: one row per group and
  selected column, holding the group's name, the column's label and the value. A row
  whose value is missing is kept, as pandas 3 does.\<close>

definition stack ::
  "(string \<times> (string \<times> 'n option) list) list \<Rightarrow> (string \<times> string \<times> 'n option) list" where
  "stack g = concat (map (\<lambda>(k, cells). map (\<lambda>(label, v). (k, label, v)) cells) g)"

definition replace :: "string list \<Rightarrow> string list \<Rightarrow> string \<Rightarrow> string" where
  "replace olds news x = (case map_of (zip olds news) x of Some y \<Rightarrow> y | None \<Rightarrow> x)"

text \<open>The result's rows are triples: the columns \<^verbatim>\<open>name\<close>,
  \<^verbatim>\<open>Percent_Change\<close> and \<^verbatim>\<open>values\<close>.\<close>

definition transform_data ::
  "('n list \<Rightarrow> 'n option) \<Rightarrow> ('n, 'a) row_scheme list \<Rightarrow>
   (string \<times> string \<times> 'n option) list" where
  "transform_data mean dataframe =
     map (\<lambda>(n, label, v).
            (n,
             replace
               [''quote.USD.percent_change_1h'', ''quote.USD.percent_change_24h'',
                ''quote.USD.percent_change_7d'', ''quote.USD.percent_change_30d'',
                ''quote.USD.percent_change_60d'', ''quote.USD.percent_change_90d'']
               [''1h'', ''24h'', ''7d'', ''30d'', ''60d'', ''90d'']
               label,
             v))
       (stack (grouped_mean mean dataframe))"

subsection \<open>filter_coin_data\<close>

text \<open>
  \<^verbatim>\<open>filter_coin_data\<close> writes the name between double quotes into the text of a
  query, \<^verbatim>\<open>name == "<coin_name>"\<close>, and \<^verbatim>\<open>DataFrame.query\<close> parses that text as
  a Python expression. The model follows the lexer through the string literal that the
  first double quote opens: a double quote closes it, a backslash takes the next
  character with it, and the end of the text inside the literal is a syntax error.
\<close>

definition dquote :: char where
  "dquote = CHR 0x22"

definition backslash :: char where
  "backslash = CHR 0x5C"

definition printable :: "char \<Rightarrow> bool" where
  "printable c = (32 \<le> (of_char c :: nat) \<and> (of_char c :: nat) \<le> 126)"

datatype literal = Closed string string | Unterminated

fun scan_literal :: "string \<Rightarrow> string \<Rightarrow> literal" where
  "scan_literal acc [] = Unterminated"
| "scan_literal acc (c # cs) =
     (if c = dquote then Closed (rev acc) cs
      else if c = backslash then
        (case cs of [] \<Rightarrow> Unterminated | d # ds \<Rightarrow> scan_literal (d # c # acc) ds)
      else scan_literal (c # acc) cs)"

datatype 'a result = Returned 'a | Raised exn

text \<open>
  \<^verbatim>\<open>DataFrame.query\<close> on the expressions that matter here. An expression of
  printable ASCII characters that reads \<^verbatim>\<open>name == "..."\<close>, the literal free of
  backslashes and closed by the last character, selects the rows whose name is the
  literal's text. One whose literal is never closed does not parse. What pandas makes
  of any other expression is the parameter \<open>eval_other\<close>.
\<close>

definition query ::
  "(('n, 'a) row_scheme list \<Rightarrow> string \<Rightarrow> ('n, 'a) row_scheme list result) \<Rightarrow>
   ('n, 'a) row_scheme list \<Rightarrow> string \<Rightarrow> ('n, 'a) row_scheme list result" where
  "query eval_other dataframe expr =
     (if list_all printable expr \<and> take 9 expr = ''name == '' @ [dquote] then
        (case scan_literal [] (drop 9 expr) of
           Unterminated \<Rightarrow> Raised SyntaxError
         | Closed lit rest \<Rightarrow>
             if rest = [] \<and> backslash \<notin> set lit
             then Returned (filter (\<lambda>r. name r = lit) dataframe)
             else eval_other dataframe expr)
      else eval_other dataframe expr)"

definition filter_coin_data ::
  "(('n, 'a) row_scheme list \<Rightarrow> string \<Rightarrow> ('n, 'a) row_scheme list result) \<Rightarrow>
   ('n, 'a) row_scheme list \<Rightarrow> string \<Rightarrow> ('n, 'a) row_scheme list result" where
  "filter_coin_data eval_other dataframe coin_name =
     query eval_other dataframe (''name == '' @ [dquote] @ coin_name @ [dquote])"

section \<open>Vocabulary of the properties\<close>

text \<open>The order in which the elements of a list first occur.\<close>

fun first_seen :: "'a list \<Rightarrow> 'a list" where
  "first_seen [] = []"
| "first_seen (x # xs) = x # filter (\<lambda>y. y \<noteq> x) (first_seen xs)"

text \<open>The six horizons, each with the column it is read from.\<close>

definition horizons :: "(string \<times> (('n, 'a) row_scheme \<Rightarrow> 'n option)) list" where
  "horizons =
     [(''1h'', percent_change_1h), (''24h'', percent_change_24h),
      (''7d'', percent_change_7d), (''30d'', percent_change_30d),
      (''60d'', percent_change_60d), (''90d'', percent_change_90d)]"

text \<open>A fetch that succeeds (a data collection arrived, empty or not) or fails with a
  transport failure; every other exchange makes \<^verbatim>\<open>fetch_data\<close> raise.\<close>

fun yields :: "exchange \<Rightarrow> bool" where
  "yields (Responds (Data d)) = True"
| "yields (Raises e) = (e = ConnectionError \<or> e = Timeout \<or> e = TooManyRedirects)"
| "yields _ = False"


fun has_data :: "exchange \<Rightarrow> bool" where
  "has_data (Responds (Data (x # xs))) = True"
| "has_data _ = False"

fun is_sleep :: "event \<Rightarrow> bool" where
  "is_sleep (Sleep n) = True"
| "is_sleep _ = False"

fun is_header :: "line \<Rightarrow> bool" where
  "is_header (Header cs) = True"
| "is_header (Row xs) = False"

text \<open>Sample rows used to run the definitions, with cells that have a value, and the
  mean of rational numbers, computed exactly.\<close>

definition sample_row :: "string \<Rightarrow> rat \<Rightarrow> rat row" where
  "sample_row n x =
     \<lparr>name = n, percent_change_1h = Some x, percent_change_24h = Some (x + 1),
      percent_change_7d = Some (x + 2), percent_change_30d = Some (x + 3),
      percent_change_60d = Some (x + 4), percent_change_90d = Some (x + 5)\<rparr>"

definition exact_mean :: "rat list \<Rightarrow> rat option" where
  "exact_mean xs = Some (sum_list xs / of_nat (length xs))"




text \<open>A handler just constructed, with no output file yet, and a world for three
  iterations: a timeout, one snapshot, an empty collection.\<close>

definition fresh :: state where
  "fresh = \<lparr>output_file = None, frame = \<lparr>columns = [], rows = []\<rparr>, trace = []\<rparr>"

definition sample_world :: world where
  "sample_world i =
     (if i = 0 then (Raises Timeout, 10)
      else if i = 1 then (Responds (Data [[(''name'', ''Bitcoin'')]]), 20)
      else (Responds (Data []), 30))"


text \<open>The lines that a frame's rows make in the file, and the cell that a written line
  holds in a given column.\<close>

definition data_lines :: "dataframe \<Rightarrow> line list" where
  "data_lines df = map (\<lambda>r. Row (map r (columns df))) (rows df)"

fun field :: "string list \<Rightarrow> string \<Rightarrow> line \<Rightarrow> cell option" where
  "field cs c (Row xs) = map_of (zip cs xs) c"
| "field cs c (Header hs) = None"

text \<open>A handler that stored two snapshots of one column into an absent file, and
  then one snapshot of two columns.\<close>

definition drifted :: state where
  "drifted =
     save_data 20 [[(''name'', ''Tether''), (''symbol'', ''USDT'')]] True
       (save_data 10 [[(''name'', ''Bitcoin'')], [(''name'', ''Ether'')]] True fresh)"

text \<open>A batch of two snapshots, the first of which brings a \<^verbatim>\<open>timestamp\<close> of its
  own.\<close>

definition sample_batch :: batch where
  "sample_batch =
     [[(''name'', ''Bitcoin''), (''timestamp'', ''2020-01-01'')], [(''name'', ''Ether'')]]"

section \<open>The reshaper\<close>

lemma set_first_seen [simp]: "set (first_seen xs) = set xs"
  by (induction xs) auto

lemma distinct_first_seen [simp]: "distinct (first_seen xs)"
  by (induction xs) auto

lemma length_first_seen: "length (first_seen xs) = card (set xs)"
  by (metis distinct_card distinct_first_seen set_first_seen)

lemma first_seen_snoc:
  "first_seen (xs @ [x]) = (if x \<in> set xs then first_seen xs else first_seen xs @ [x])"
  by (induction xs) auto

text \<open>The same order, said with the library's \<open>remdups\<close>, which keeps the last
  occurrence of each element.\<close>

lemma first_seen_remdups: "first_seen xs = rev (remdups (rev xs))"
  by (induction xs rule: rev_induct) (simp_all add: first_seen_snoc)

lemma add_to_group_old:
  "distinct ks \<Longrightarrow> name r \<in> set ks \<Longrightarrow>
   add_to_group r (map (\<lambda>n. (n, filter (\<lambda>q. name q = n) t)) ks) =
   map (\<lambda>n. (n, filter (\<lambda>q. name q = n) (t @ [r]))) ks"
  by (induction ks) auto

lemma add_to_group_new:
  "name r \<notin> set ks \<Longrightarrow>
   add_to_group r (map (\<lambda>n. (n, filter (\<lambda>q. name q = n) t)) ks) =
   map (\<lambda>n. (n, filter (\<lambda>q. name q = n) (t @ [r]))) ks @ [(name r, [r])]"
  by (induction ks) auto

text \<open>The groups are the names in first-seen order, each with all the rows of that
  name, in table order.\<close>

lemma groupby_name_eq:
  "groupby_name t = map (\<lambda>n. (n, filter (\<lambda>q. name q = n) t)) (first_seen (map name t))"
proof (induction t rule: rev_induct)
  case Nil
  then show ?case by (simp add: groupby_name_def)
next
  case (snoc r t)
  have step: "groupby_name (t @ [r]) = add_to_group r (groupby_name t)"
    by (simp add: groupby_name_def)
  show ?case
  proof (cases "name r \<in> set (map name t)")
    case True
    then have "name r \<in> set (first_seen (map name t))" by simp
    with True show ?thesis
      unfolding step snoc.IH
      by (simp add: add_to_group_old first_seen_snoc)
  next
    case False
    then have n: "name r \<notin> set (first_seen (map name t))" by simp
    have "\<forall>q \<in> set t. name q \<noteq> name r"
      using False by (metis image_eqI set_map)
    then have "filter (\<lambda>q. name q = name r) t = []"
      by (simp add: filter_empty_conv)
    with False n show ?thesis
      unfolding step snoc.IH
      by (simp add: add_to_group_new first_seen_snoc)
  qed
qed

lemma transform_data_eq:
  "transform_data mean t =
     concat (map (\<lambda>n. map (\<lambda>(h, col).
         (n, h, column_mean mean (map col (filter (\<lambda>q. name q = n) t)))) horizons)
       (first_seen (map name t)))"
  unfolding transform_data_def stack_def grouped_mean_def groupby_name_eq
    selected_columns_def horizons_def replace_def
  by (simp add: map_concat comp_def)

lemma keys_transform_data:
  "map (\<lambda>(n, h, v). (n, h)) (transform_data mean t) =
     List.product (first_seen (map name t)) [''1h'', ''24h'', ''7d'', ''30d'', ''60d'', ''90d'']"
  unfolding transform_data_eq horizons_def product_concat_map
  by (simp add: map_concat comp_def)

text \<open>
  Claim C1. For a table with N distinct names, \<^verbatim>\<open>transform_data\<close> returns exactly
  6 * N rows, and every pair of a name of the table and one of the six horizons
  1h, 24h, 7d, 30d, 60d, 90d occurs in exactly one of them: the pairs of the result are
  pairwise different, and they are all the pairs of a name and a horizon.
\<close>

theorem transform_data_six_rows_per_name:
  "length (transform_data mean t) = 6 * card (name ` set t) \<and>
   distinct (map (\<lambda>(n, h, v). (n, h)) (transform_data mean t)) \<and>
   set (map (\<lambda>(n, h, v). (n, h)) (transform_data mean t)) =
     name ` set t \<times> {''1h'', ''24h'', ''7d'', ''30d'', ''60d'', ''90d''}"
proof -
  have "length (transform_data mean t) =
      length (map (\<lambda>(n, h, v). (n, h)) (transform_data mean t))"
    by simp
  also have "\<dots> = 6 * card (name ` set t)"
    unfolding keys_transform_data by (simp add: length_first_seen)
  finally have 1: "length (transform_data mean t) = 6 * card (name ` set t)" .
  have 2: "distinct (map (\<lambda>(n, h, v). (n, h)) (transform_data mean t))"
    unfolding keys_transform_data by (rule distinct_product) simp_all
  have 3: "set (map (\<lambda>(n, h, v). (n, h)) (transform_data mean t)) =
     name ` set t \<times> {''1h'', ''24h'', ''7d'', ''30d'', ''60d'', ''90d''}"
    unfolding keys_transform_data by simp
  from 1 2 3 show ?thesis by blast
qed

theorem transform_data_six_rows_per_name_witness:
  "length (transform_data exact_mean
     [sample_row ''Bitcoin'' 1, sample_row ''Ether'' 10, sample_row ''Bitcoin'' 2]) = 12 \<and>
   distinct (map (\<lambda>(n, h, v). (n, h))
     (transform_data exact_mean
       [sample_row ''Bitcoin'' 1, sample_row ''Ether'' 10, sample_row ''Bitcoin'' 2])) \<and>
   set (map (\<lambda>(n, h, v). (n, h))
     (transform_data exact_mean
       [sample_row ''Bitcoin'' 1, sample_row ''Ether'' 10, sample_row ''Bitcoin'' 2])) =
     {''Bitcoin'', ''Ether''} \<times> {''1h'', ''24h'', ''7d'', ''30d'', ''60d'', ''90d''}"
  using transform_data_six_rows_per_name
    [of exact_mean "[sample_row ''Bitcoin'' 1, sample_row ''Ether'' 10, sample_row ''Bitcoin'' 2]"]
  by (simp add: sample_row_def card_insert_if insert_commute)




section \<open>The poll loop\<close>

lemma trace_save_data: "trace (save_data now d b s) = trace s @ [Store]"
  by (simp add: save_data_def emit_def Let_def split: option.splits)

lemma cycle_yields:
  assumes "yields (fst (w i))"
  shows "\<exists>s'. cycle w interval runs i s = Completed s' \<and>
    count_list (trace s') Fetch = count_list (trace s) Fetch + 1 \<and>
    filter is_sleep (trace s') = filter is_sleep (trace s) @ [Sleep interval] \<and>
    count_list (trace s') Store =
      count_list (trace s) Store + (if has_data (fst (w i)) then 1 else 0) \<and>
    last (trace s') = Sleep interval"
proof (cases "fst (w i)")
  case (Raises e)
  with assms show ?thesis
    by (auto simp: cycle_def fetch_data_def try_block_def excepted_def emit_def Let_def)
next
  case (Responds b)
  with assms obtain d where b: "b = Data d" by (cases b) auto
  show ?thesis
  proof (cases d)
    case Nil
    with Responds b show ?thesis
      by (simp add: cycle_def fetch_data_def try_block_def emit_def Let_def)
  next
    case (Cons x xs)
    with Responds b show ?thesis
      by (simp add: cycle_def fetch_data_def try_block_def call_save_data_def emit_def Let_def
          trace_save_data)
  qed
qed

lemma iterate_yields:
  assumes "\<forall>i \<in> set js. yields (fst (w i))"
  shows "\<exists>s'. iterate w interval runs js s = Completed s' \<and>
    count_list (trace s') Fetch = count_list (trace s) Fetch + length js \<and>
    filter is_sleep (trace s') =
      filter is_sleep (trace s) @ replicate (length js) (Sleep interval) \<and>
    count_list (trace s') Store =
      count_list (trace s) Store + length (filter (\<lambda>i. has_data (fst (w i))) js) \<and>
    (js \<noteq> [] \<longrightarrow> last (trace s') = Sleep interval)"
  using assms
proof (induction js arbitrary: s)
  case Nil
  then show ?case by simp
next
  case (Cons j js)
  from Cons.prems have "yields (fst (w j))" by simp
  from cycle_yields[of w j interval runs s, OF this] obtain s1 where
    c: "cycle w interval runs j s = Completed s1"
    and f: "count_list (trace s1) Fetch = count_list (trace s) Fetch + 1"
    and sl: "filter is_sleep (trace s1) = filter is_sleep (trace s) @ [Sleep interval]"
    and st: "count_list (trace s1) Store =
      count_list (trace s) Store + (if has_data (fst (w j)) then 1 else 0)"
    and la: "last (trace s1) = Sleep interval"
    by blast
  from Cons.prems have "\<forall>i \<in> set js. yields (fst (w i))" by simp
  from Cons.IH[of s1, OF this] obtain s2 where
    i: "iterate w interval runs js s1 = Completed s2"
    and f2: "count_list (trace s2) Fetch = count_list (trace s1) Fetch + length js"
    and sl2: "filter is_sleep (trace s2) =
      filter is_sleep (trace s1) @ replicate (length js) (Sleep interval)"
    and st2: "count_list (trace s2) Store =
      count_list (trace s1) Store + length (filter (\<lambda>i. has_data (fst (w i))) js)"
    and la2: "js \<noteq> [] \<longrightarrow> last (trace s2) = Sleep interval"
    by blast
  have "iterate w interval runs (j # js) s = Completed s2" using c i by simp
  moreover have "count_list (trace s2) Fetch = count_list (trace s) Fetch + length (j # js)"
    using f f2 by simp
  moreover have "filter is_sleep (trace s2) =
      filter is_sleep (trace s) @ replicate (length (j # js)) (Sleep interval)"
    using sl sl2 by (simp add: replicate_append_same)
  moreover have "count_list (trace s2) Store =
      count_list (trace s) Store + length (filter (\<lambda>i. has_data (fst (w i))) (j # js))"
    using st st2 by simp
  moreover have "last (trace s2) = Sleep interval"
  proof (cases js)
    case Nil
    with i have "s2 = s1" by simp
    with la show ?thesis by simp
  next
    case (Cons a list)
    with la2 show ?thesis by simp
  qed
  ultimately show ?case by blast
qed


text \<open>
  Claim C2. Whatever the interval and the number of runs, if every fetch of the run
  either returns a data collection or fails with a transport failure, then
  \<^verbatim>\<open>automate_data_pull\<close> completes, having made exactly \<open>runs\<close> fetch attempts and
  exactly \<open>runs\<close> sleeps, each of \<open>interval\<close> seconds, the last one after the final
  iteration; it stores only in the cycles whose fetch returned a non-empty collection.
\<close>

theorem automate_data_pull_counts:
  assumes "\<forall>i<runs. yields (fst (w i))"
  shows "\<exists>s'. automate_data_pull w interval runs s = Completed s' \<and>
     count_list (trace s') Fetch = count_list (trace s) Fetch + runs \<and>
     filter is_sleep (trace s') = filter is_sleep (trace s) @ replicate runs (Sleep interval) \<and>
     count_list (trace s') Store =
       count_list (trace s) Store + length (filter (\<lambda>i. has_data (fst (w i))) [0..<runs]) \<and>
     (0 < runs \<longrightarrow> last (trace s') = Sleep interval)"
proof -
  from assms have "\<forall>i \<in> set [0..<runs]. yields (fst (w i))" by simp
  from iterate_yields[of "[0..<runs]" w interval runs s, OF this]
  show ?thesis by (simp add: automate_data_pull_def)
qed

theorem automate_data_pull_counts_witness:
  "\<exists>s'. automate_data_pull sample_world 60 3 fresh = Completed s' \<and>
     count_list (trace s') Fetch = 3 \<and>
     filter is_sleep (trace s') = [Sleep 60, Sleep 60, Sleep 60] \<and>
     count_list (trace s') Store = 1 \<and>
     last (trace s') = Sleep 60"
  using automate_data_pull_counts[of 3 sample_world 60 fresh]
  by (simp add: sample_world_def fresh_def numeral_3_eq_3 less_Suc_eq upt_rec)

text \<open>
  Claim C5. On a connection error, a timeout or too many redirects,
  \<^verbatim>\<open>fetch_data\<close> does not raise: it prints the error and returns \<^verbatim>\<open>None\<close>.
  The cycle of the loop that meets it completes without storing (the file and the frame
  are unchanged), sleeps, and the loop goes on with the remaining iterations.
\<close>

theorem transport_failure_skips_cycle:
  assumes "e = ConnectionError \<or> e = Timeout \<or> e = TooManyRedirects"
    and "fst (w i) = Raises e"
  shows "fetch_data (Raises e) s = (Inr None, emit (Print (ErrorFetching e)) (emit Fetch s)) \<and>
     cycle w interval runs i s =
       Completed (s\<lparr>trace := trace s @
         [Print (Pulling (i + 1) runs), Fetch, Print (ErrorFetching e),
          Print (RunCompleted (i + 1) interval), Sleep interval]\<rparr>) \<and>
     iterate w interval runs (i # js) s =
       iterate w interval runs js (s\<lparr>trace := trace s @
         [Print (Pulling (i + 1) runs), Fetch, Print (ErrorFetching e),
          Print (RunCompleted (i + 1) interval), Sleep interval]\<rparr>)"
  using assms
  by (auto simp: cycle_def fetch_data_def try_block_def excepted_def emit_def Let_def)

theorem transport_failure_skips_cycle_witness:
  "fetch_data (Raises Timeout) fresh =
     (Inr None, fresh\<lparr>trace := [Fetch, Print (ErrorFetching Timeout)]\<rparr>) \<and>
   cycle sample_world 60 3 0 fresh =
     Completed (fresh\<lparr>trace :=
       [Print (Pulling 1 3), Fetch, Print (ErrorFetching Timeout),
        Print (RunCompleted 1 60), Sleep 60]\<rparr>)"
  using transport_failure_skips_cycle[of Timeout sample_world 0 fresh 60 3 "[]"]
  by (simp add: sample_world_def fresh_def emit_def)

text \<open>
  Claim C10. A cycle whose fetch succeeds with an empty collection does not store:
  it completes with the file as it was (absent if it was absent), no header and no
  row written, and sleeps.
\<close>

theorem empty_collection_skips_store:
  assumes "fst (w i) = Responds (Data [])"
  shows "cycle w interval runs i s =
       Completed (s\<lparr>trace := trace s @
         [Print (Pulling (i + 1) runs), Fetch,
          Print (RunCompleted (i + 1) interval), Sleep interval]\<rparr>)"
  using assms
  by (simp add: cycle_def fetch_data_def try_block_def emit_def Let_def)

theorem empty_collection_skips_store_witness:
  "cycle sample_world 60 3 2 fresh =
     Completed \<lparr>output_file = None, frame = \<lparr>columns = [], rows = []\<rparr>,
       trace = [Print (Pulling 3 3), Fetch, Print (RunCompleted 3 60), Sleep 60]\<rparr>"
  using empty_collection_skips_store[of sample_world 2 60 3 fresh]
  by (simp add: sample_world_def fresh_def)





section \<open>The append store\<close>

lemma length_rows_json_normalize: "length (rows (json_normalize d)) = length d"
  by (simp add: json_normalize_def)

lemma length_rows_assign: "length (rows (assign c v df)) = length (rows df)"
  by (simp add: assign_def)

lemma to_csv_rows:
  "length (to_csv False df) = length (rows df) \<and> filter is_header (to_csv False df) = []"
  by (simp add: to_csv_def filter_empty_conv)

lemma to_csv_header: "to_csv True df = Header (columns df) # to_csv False df"
  by (simp add: to_csv_def)

lemma output_file_save_data:
  "output_file (save_data now d True s) =
     Some (case output_file s of
             None \<Rightarrow> to_csv True (assign ''timestamp'' (Time now) (json_normalize d))
           | Some ls \<Rightarrow> ls @ to_csv False (assign ''timestamp'' (Time now) (json_normalize d)))"
  by (simp add: save_data_def emit_def Let_def split: option.splits)

lemma frame_save_data:
  "frame (save_data now d b s) = assign ''timestamp'' (Time now) (json_normalize d)"
  by (simp add: save_data_def emit_def Let_def split: option.splits)

lemma to_csv_False: "to_csv False df = data_lines df"
  by (simp add: to_csv_def data_lines_def)

text \<open>
  Claim C3. When the output file does not exist, \<^verbatim>\<open>save_data\<close> creates it with a
  header line followed by the batch's rows; when it exists, the batch's rows are
  appended, with no header. A batch of \<open>K\<close> snapshots makes \<open>K\<close> rows. Hence two
  batches of \<open>K\<close> and \<open>M\<close> snapshots stored into an absent file leave one header line,
  the first line, and \<open>K + M\<close> rows.
\<close>

theorem save_data_header_once:
  "(output_file s = None \<longrightarrow>
      output_file (save_data now d True s) =
        Some (Header (columns (frame (save_data now d True s))) #
              data_lines (frame (save_data now d True s)))) \<and>
   (\<forall>ls. output_file s = Some ls \<longrightarrow>
      output_file (save_data now d True s) =
        Some (ls @ data_lines (frame (save_data now d True s)))) \<and>
   length (data_lines (frame (save_data now d True s))) = length d \<and>
   filter is_header (data_lines (frame (save_data now d True s))) = [] \<and>
   (output_file s = None \<longrightarrow>
      (\<exists>cs rs. output_file (save_data t2 b2 True (save_data t1 b1 True s)) = Some (Header cs # rs) \<and>
         length rs = length b1 + length b2 \<and> filter is_header rs = []))"
proof -
  let ?df = "\<lambda>t b. assign ''timestamp'' (Time t) (json_normalize b)"
  have len: "\<And>t b. length (data_lines (?df t b)) = length b"
    by (simp add: data_lines_def length_rows_assign length_rows_json_normalize)
  have nohdr: "\<And>t b. filter is_header (data_lines (?df t b)) = []"
    by (simp add: data_lines_def filter_empty_conv)
  have 1: "output_file s = None \<longrightarrow>
      output_file (save_data now d True s) =
        Some (Header (columns (frame (save_data now d True s))) #
              data_lines (frame (save_data now d True s)))"
    by (simp add: output_file_save_data frame_save_data to_csv_header to_csv_False)
  have 2: "\<forall>ls. output_file s = Some ls \<longrightarrow>
      output_file (save_data now d True s) =
        Some (ls @ data_lines (frame (save_data now d True s)))"
    by (simp add: output_file_save_data frame_save_data to_csv_False)
  have 3: "length (data_lines (frame (save_data now d True s))) = length d"
    by (simp add: frame_save_data len)
  have 4: "filter is_header (data_lines (frame (save_data now d True s))) = []"
    by (simp add: frame_save_data nohdr)
  have 5: "output_file s = None \<longrightarrow>
      (\<exists>cs rs. output_file (save_data t2 b2 True (save_data t1 b1 True s)) = Some (Header cs # rs) \<and>
         length rs = length b1 + length b2 \<and> filter is_header rs = [])"
    using len nohdr by (simp add: output_file_save_data to_csv_header to_csv_False)
  from 1 2 3 4 5 show ?thesis by blast
qed

theorem save_data_header_once_witness:
  "output_file (save_data 20 [[(''name'', ''Tether'')]] True (save_data 10 sample_batch True fresh)) =
     Some [Header [''name'', ''timestamp''],
           Row [Val ''Bitcoin'', Time 10], Row [Val ''Ether'', Time 10],
           Row [Val ''Tether'', Time 20]]"
  using save_data_header_once[of fresh 10 sample_batch 20 "[[(''name'', ''Tether'')]]" 10 sample_batch]
  by (simp add: sample_batch_def fresh_def save_data_def emit_def json_normalize_def
      assign_def add_column_def to_csv_def data_lines_def)

lemma timestamp_in_columns:
  "''timestamp'' \<in> set (columns (assign ''timestamp'' v df))"
  by (simp add: assign_def add_column_def)

lemma rows_assign_timestamp:
  "map (\<lambda>r. r c) (rows (assign c v df)) = replicate (length (rows df)) v"
  by (simp add: assign_def comp_def map_replicate_const)

text \<open>
  Claim C4. Every row of the frame that \<^verbatim>\<open>save_data\<close> builds from a batch, and
  every line it writes for the batch, holds in the column \<^verbatim>\<open>timestamp\<close> the one
  clock value read at the call, whatever the payload holds under that name.
\<close>

theorem save_data_one_timestamp:
  "map (\<lambda>r. r ''timestamp'') (rows (frame (save_data now d save_csv s))) =
     replicate (length d) (Time now) \<and>
   (\<exists>old rs. output_file (save_data now d True s) = Some (old @ rs) \<and>
      length rs = length d \<and>
      map (field (columns (frame (save_data now d True s))) ''timestamp'') rs =
        replicate (length d) (Some (Time now)))"
proof -
  let ?df = "assign ''timestamp'' (Time now) (json_normalize d)"
  have 1: "map (\<lambda>r. r ''timestamp'') (rows (frame (save_data now d save_csv s))) =
     replicate (length d) (Time now)"
    by (simp add: frame_save_data rows_assign_timestamp length_rows_json_normalize)
  have f: "map (field (columns ?df) ''timestamp'') (to_csv False ?df) =
      replicate (length d) (Some (Time now))"
  proof -
    have "map (field (columns ?df) ''timestamp'') (to_csv False ?df) =
        map (\<lambda>r. Some (r ''timestamp'')) (rows ?df)"
      using timestamp_in_columns[of "Time now" "json_normalize d"]
      by (simp add: to_csv_def comp_def map_of_zip_map)
    also have "\<dots> = map Some (map (\<lambda>r. r ''timestamp'') (rows ?df))" by (simp add: comp_def)
    also have "\<dots> = replicate (length d) (Some (Time now))"
      by (simp add: rows_assign_timestamp length_rows_json_normalize)
    finally show ?thesis .
  qed
  have l: "length (to_csv False ?df) = length d"
    by (simp add: to_csv_rows length_rows_assign length_rows_json_normalize)
  have "output_file (save_data now d True s) =
      Some ((case output_file s of None \<Rightarrow> [Header (columns ?df)] | Some ls \<Rightarrow> ls) @ to_csv False ?df)"
    by (simp add: output_file_save_data to_csv_header split: option.splits)
  with f l have 2: "\<exists>old rs. output_file (save_data now d True s) = Some (old @ rs) \<and>
      length rs = length d \<and>
      map (field (columns (frame (save_data now d True s))) ''timestamp'') rs =
        replicate (length d) (Some (Time now))"
    unfolding frame_save_data by blast
  from 1 2 show ?thesis by blast
qed

theorem save_data_one_timestamp_witness:
  "output_file (save_data 10 sample_batch True fresh) =
     Some [Header [''name'', ''timestamp''],
           Row [Val ''Bitcoin'', Time 10], Row [Val ''Ether'', Time 10]] \<and>
   map (\<lambda>r. r ''timestamp'') (rows (frame (save_data 10 sample_batch True fresh))) =
     [Time 10, Time 10]"
  using save_data_one_timestamp[of 10 sample_batch True fresh]
  by (simp add: sample_batch_def fresh_def save_data_def emit_def json_normalize_def
      assign_def add_column_def to_csv_def)

lemma read_csv_fitting:
  assumes "h \<noteq> []"
    and "\<forall>l \<in> set ls. cells l \<noteq> [] \<and> length (cells l) \<le> length h"
  shows "read_csv (Header h # ls) =
     Inr \<lparr>heading = map Val h,
          data_rows = map (\<lambda>l. cells l @ replicate (length h - length (cells l)) NaN) ls\<rparr>"
proof -
  have keep: "filter (\<lambda>l. cells l \<noteq> []) (Header h # ls) = Header h # ls"
    using assms by (simp add: filter_id_conv)
  have width: "(case ls of
                  [] \<Rightarrow> length (cells (Header h))
                | d # ds' \<Rightarrow> max (length (cells (Header h))) (length (cells d))) = length h"
    using assms(2) by (cases ls) (simp_all add: max_def)
  have fits: "\<not> list_ex (\<lambda>d. length h < length (cells d)) ls"
    using assms(2) by (auto simp: list_ex_iff)
  show ?thesis
    unfolding read_csv_def keep using width fits by (simp add: Let_def)
qed

lemma cells_data_lines:
  "\<forall>l \<in> set (data_lines df). length (cells l) = length (columns df)"
  by (simp add: data_lines_def)

text \<open>
  Claim C9, as amended. With no output file, \<^verbatim>\<open>load_data\<close> prints its message
  and returns \<^verbatim>\<open>None\<close>; it raises nothing. With a file whose rows have no more
  fields than its header, it returns the whole table: the header's names and every
  row, filled up to the header's width; such is the file that \<^verbatim>\<open>save_data\<close>
  writes from a batch when there was none. With a file that \<^verbatim>\<open>pd.read_csv\<close>
  cannot parse, \<^verbatim>\<open>load_data\<close> raises what the parser raises.
\<close>

theorem load_data_absent_or_parsed:
  "(output_file s = None \<longrightarrow> load_data s = (Inr None, emit (Print NoDataFile) s)) \<and>
   (\<forall>h ls. output_file s = Some (Header h # ls) \<and> h \<noteq> [] \<and>
        (\<forall>l \<in> set ls. cells l \<noteq> [] \<and> length (cells l) \<le> length h) \<longrightarrow>
      load_data s =
        (Inr (Some \<lparr>heading = map Val h,
                    data_rows =
                      map (\<lambda>l. cells l @ replicate (length h - length (cells l)) NaN) ls\<rparr>),
         s)) \<and>
   (output_file s = None \<longrightarrow>
      load_data (save_data now d True s) =
        (Inr (Some \<lparr>heading = map Val (columns (frame (save_data now d True s))),
                    data_rows = map cells (data_lines (frame (save_data now d True s)))\<rparr>),
         save_data now d True s)) \<and>
   (\<forall>ls e. output_file s = Some ls \<and> read_csv ls = Inl e \<longrightarrow> load_data s = (Inl e, s))"
proof -
  have 1: "output_file s = None \<longrightarrow> load_data s = (Inr None, emit (Print NoDataFile) s)"
    by (simp add: load_data_def)
  have 2: "\<forall>h ls. output_file s = Some (Header h # ls) \<and> h \<noteq> [] \<and>
        (\<forall>l \<in> set ls. cells l \<noteq> [] \<and> length (cells l) \<le> length h) \<longrightarrow>
      load_data s =
        (Inr (Some \<lparr>heading = map Val h,
                    data_rows =
                      map (\<lambda>l. cells l @ replicate (length h - length (cells l)) NaN) ls\<rparr>),
         s)"
    by (auto simp: load_data_def read_csv_fitting)
  have 3: "output_file s = None \<longrightarrow>
      load_data (save_data now d True s) =
        (Inr (Some \<lparr>heading = map Val (columns (frame (save_data now d True s))),
                    data_rows = map cells (data_lines (frame (save_data now d True s)))\<rparr>),
         save_data now d True s)"
  proof
    assume absent: "output_file s = None"
    let ?s = "save_data now d True s"
    let ?df = "frame ?s"
    have written: "output_file ?s = Some (Header (columns ?df) # data_lines ?df)"
      using absent
      by (simp add: output_file_save_data frame_save_data to_csv_header to_csv_False)
    have cols: "columns ?df \<noteq> []"
      using timestamp_in_columns[of "Time now" "json_normalize d"]
      by (auto simp: frame_save_data)
    have fit: "\<forall>l \<in> set (data_lines ?df).
        cells l \<noteq> [] \<and> length (cells l) \<le> length (columns ?df)"
      using cols by (simp add: data_lines_def)
    have "read_csv (Header (columns ?df) # data_lines ?df) =
        Inr \<lparr>heading = map Val (columns ?df),
             data_rows = map (\<lambda>l. cells l @
               replicate (length (columns ?df) - length (cells l)) NaN) (data_lines ?df)\<rparr>"
      by (rule read_csv_fitting[OF cols fit])
    also have "map (\<lambda>l. cells l @
               replicate (length (columns ?df) - length (cells l)) NaN) (data_lines ?df) =
        map cells (data_lines ?df)"
      by (simp add: data_lines_def)
    finally show "load_data ?s =
        (Inr (Some \<lparr>heading = map Val (columns ?df),
                    data_rows = map cells (data_lines ?df)\<rparr>), ?s)"
      by (simp add: load_data_def written)
  qed
  have 4: "\<forall>ls e. output_file s = Some ls \<and> read_csv ls = Inl e \<longrightarrow> load_data s = (Inl e, s)"
    by (simp add: load_data_def)
  from 1 2 3 4 show ?thesis by blast
qed

theorem load_data_absent_or_parsed_witness:
  "load_data fresh = (Inr None, fresh\<lparr>trace := [Print NoDataFile]\<rparr>) \<and>
   load_data (save_data 10 sample_batch True fresh) =
     (Inr (Some \<lparr>heading = [Val ''name'', Val ''timestamp''],
                 data_rows = [[Val ''Bitcoin'', Time 10], [Val ''Ether'', Time 10]]\<rparr>),
      save_data 10 sample_batch True fresh)"
  using load_data_absent_or_parsed[of fresh 10 sample_batch]
  by (simp add: sample_batch_def fresh_def save_data_def emit_def json_normalize_def
      assign_def add_column_def to_csv_def data_lines_def)

text \<open>
  Against claim C9 as it was stated: the file of \<open>drifted\<close> exists, written by
  \<^verbatim>\<open>save_data\<close> itself, but its last row has three fields under a header of two.
  \<^verbatim>\<open>pd.read_csv\<close> raises on it, and so does \<^verbatim>\<open>load_data\<close>, which returns no
  table.
\<close>

theorem load_data_raises_on_drifted_file:
  "output_file drifted =
     Some [Header [''name'', ''timestamp''],
           Row [Val ''Bitcoin'', Time 10], Row [Val ''Ether'', Time 10],
           Row [Val ''Tether'', Val ''USDT'', Time 20]] \<and>
   load_data drifted = (Inl ParserError, drifted)"
proof -
  have f: "output_file drifted =
     Some [Header [''name'', ''timestamp''],
           Row [Val ''Bitcoin'', Time 10], Row [Val ''Ether'', Time 10],
           Row [Val ''Tether'', Val ''USDT'', Time 20]]"
    by (simp add: drifted_def fresh_def save_data_def emit_def json_normalize_def
        assign_def add_column_def to_csv_def)
  have "load_data drifted = (Inl ParserError, drifted)"
    by (simp add: load_data_def f read_csv_def)
  with f show ?thesis by simp
qed

section \<open>The filter\<close>

lemma scan_plain:
  "dquote \<notin> set n \<Longrightarrow> backslash \<notin> set n \<Longrightarrow>
   scan_literal acc (n @ [dquote]) = Closed (rev acc @ n) []"
  by (induction n arbitrary: acc) auto

text \<open>A name of printable characters, none of them a double quote or a backslash,
  selects exactly the rows that bear it: the comparison is on the whole name, case
  included, and a name that no row bears gives the empty table.\<close>

lemma filter_coin_data_plain_name:
  assumes "list_all printable coin_name"
    and "dquote \<notin> set coin_name" and "backslash \<notin> set coin_name"
  shows "filter_coin_data eval_other dataframe coin_name =
     Returned (filter (\<lambda>r. name r = coin_name) dataframe)"
proof -
  have "list_all printable (''name == '' @ [dquote] @ coin_name @ [dquote])"
    using assms(1) by (simp add: printable_def dquote_def)
  then show ?thesis
    using assms(2,3) by (simp add: filter_coin_data_def query_def scan_plain)
qed

lemma scan_trailing_backslash:
  "dquote \<notin> set n \<Longrightarrow> backslash \<notin> set n \<Longrightarrow>
   scan_literal acc (n @ [backslash, dquote]) = Unterminated"
  by (induction n arbitrary: acc) (auto simp: dquote_def backslash_def)

text \<open>Every such name followed by one backslash makes the query raise.\<close>

lemma filter_coin_data_backslash_raises:
  assumes "list_all printable coin_name"
    and "dquote \<notin> set coin_name" and "backslash \<notin> set coin_name"
  shows "filter_coin_data eval_other dataframe (coin_name @ [backslash]) = Raised SyntaxError"
proof -
  have "list_all printable (''name == '' @ [dquote] @ (coin_name @ [backslash]) @ [dquote])"
    using assms(1) by (simp add: printable_def dquote_def backslash_def)
  then show ?thesis
    using assms(2,3) scan_trailing_backslash[of coin_name "[]"]
    by (simp add: filter_coin_data_def query_def)
qed

text \<open>
  Claim C6. The claim is that filtering selects the rows of the given name and never
  raises, whatever the name. For a name of printable characters without a double quote
  or a backslash this is \<open>filter_coin_data_plain_name\<close> above. For the name made of
  the seven letters of Bitcoin and one backslash after them, the query text ends in a
  backslash and a double quote: the backslash takes the closing quote with it, the
  literal is never closed, and the call raises.
\<close>

theorem filter_coin_data_trailing_backslash:
  "filter_coin_data eval_other dataframe (''Bitcoin'' @ [backslash]) = Raised SyntaxError"
  by (simp add: filter_coin_data_def query_def printable_def dquote_def backslash_def)

end
